theory Spec2Isabelle
  imports Main
begin

section \<open>Variables, traces and expressions\<close>

text \<open>
  The statement nodes of \<^verbatim>\<open>nuitka/nodes/AssignNodes.py\<close> query variables, variable
  traces and expression nodes whose classes live in other modules. Each of them is
  represented here by the answers of the queries the statement rules make.
\<close>

datatype variable_kind = ModuleVariable | LocalVariable | TempVariable | ClosureVariable

record variable =
  var_name :: string
  var_kind :: variable_kind
  var_shared_logically :: bool
  var_shared_technically :: bool

definition isModuleVariable :: "variable \<Rightarrow> bool" where
  "isModuleVariable v = (var_kind v = ModuleVariable)"

definition isLocalVariable :: "variable \<Rightarrow> bool" where
  "isLocalVariable v = (var_kind v = LocalVariable)"

definition isTempVariable :: "variable \<Rightarrow> bool" where
  "isTempVariable v = (var_kind v = TempVariable)"

definition isSharedLogically :: "variable \<Rightarrow> bool" where
  "isSharedLogically v = var_shared_logically v"

definition isSharedTechnically :: "variable \<Rightarrow> bool" where
  "isSharedTechnically v = var_shared_technically v"

definition getName :: "variable \<Rightarrow> string" where
  "getName v = var_name v"

text \<open>
  Modelled from the spec: the trace classes are not part of the analysed file. A trace
  is the record of what \<^verbatim>\<open>isUninitTrace\<close>, \<^verbatim>\<open>mustHaveValue\<close> and
  \<^verbatim>\<open>mustNotHaveValue\<close> answer.
\<close>

record variable_trace =
  isUninitTrace :: bool
  mustHaveValue :: bool
  mustNotHaveValue :: bool

type_synonym exception_type = string

text \<open>
  What the expression-level analysis answers about an expression node:
  \<^verbatim>\<open>willRaiseException(BaseException)\<close>, \<^verbatim>\<open>mayRaiseException(exception_type)\<close>,
  \<^verbatim>\<open>mayHaveSideEffects()\<close>, \<^verbatim>\<open>isCompileTimeConstant()\<close> and \<^verbatim>\<open>isMutable()\<close>.
\<close>

record expression_facts =
  fact_will_raise :: bool
  fact_may_raise :: "exception_type \<Rightarrow> bool"
  fact_side_effects :: bool
  fact_compile_time_constant :: bool
  fact_mutable :: bool

text \<open>
  The expression kinds the statement rules tell apart: a variable reference, the
  side-effects wrapper (pre-evaluated fragments and the residual expression), a function
  creation (generator body, class-dictionary body, defaults, keyword defaults,
  annotations), and every other kind.
\<close>

datatype expression =
    ExpressionVariableRef variable expression_facts
  | ExpressionSideEffects "expression list" expression expression_facts
  | ExpressionFunctionCreation bool bool "expression list" "expression option"
      "expression option" expression_facts
  | ExpressionOther string expression_facts

fun facts :: "expression \<Rightarrow> expression_facts" where
  "facts (ExpressionVariableRef v f) = f"
| "facts (ExpressionSideEffects ses e f) = f"
| "facts (ExpressionFunctionCreation g c ds kw an f) = f"
| "facts (ExpressionOther n f) = f"

definition willRaiseException :: "expression \<Rightarrow> bool" where
  "willRaiseException e = fact_will_raise (facts e)"

definition mayRaiseException :: "expression \<Rightarrow> exception_type \<Rightarrow> bool" where
  "mayRaiseException e exception_type = fact_may_raise (facts e) exception_type"

definition mayHaveSideEffects :: "expression \<Rightarrow> bool" where
  "mayHaveSideEffects e = fact_side_effects (facts e)"

definition isCompileTimeConstant :: "expression \<Rightarrow> bool" where
  "isCompileTimeConstant e = fact_compile_time_constant (facts e)"

definition isMutable :: "expression \<Rightarrow> bool" where
  "isMutable e = fact_mutable (facts e)"

fun isExpressionVariableRef :: "expression \<Rightarrow> bool" where
  "isExpressionVariableRef (ExpressionVariableRef v f) = True"
| "isExpressionVariableRef e = False"

fun getVariable :: "expression \<Rightarrow> variable option" where
  "getVariable (ExpressionVariableRef v f) = Some v"
| "getVariable e = None"

fun isExpressionSideEffects :: "expression \<Rightarrow> bool" where
  "isExpressionSideEffects (ExpressionSideEffects ses e f) = True"
| "isExpressionSideEffects e = False"

fun getSideEffects :: "expression \<Rightarrow> expression list" where
  "getSideEffects (ExpressionSideEffects ses e f) = ses"
| "getSideEffects e = []"

fun getExpression :: "expression \<Rightarrow> expression" where
  "getExpression (ExpressionSideEffects ses e f) = e"
| "getExpression e = e"

text \<open>
  The test of the function-creation branch of the assignment rule: a function creation
  whose body is no generator and no class dictionary, with no defaults, no keyword
  defaults and no annotations.
\<close>

fun isPlainFunctionCreation :: "expression \<Rightarrow> bool" where
  "isPlainFunctionCreation (ExpressionFunctionCreation g c ds kw an f) =
     (\<not> g \<and> \<not> c \<and> ds = [] \<and> kw = None \<and> an = None)"
| "isPlainFunctionCreation e = False"

text \<open>
  Modelled from the spec: an assign trace, as \<^verbatim>\<open>onVariableSet\<close> and the registry's
  \<^verbatim>\<open>getMatchingAssignTrace\<close> return it. It carries the number of definite usages,
  whether there are potential and name usages, the trace it replaced and the replacement
  node given to \<^verbatim>\<open>setReplacementNode\<close> (the expression that each usage clones).
\<close>

record assign_trace =
  at_definite_usages :: nat
  at_potential_usages :: bool
  at_name_usages :: bool
  at_previous :: variable_trace
  at_replacement :: "expression option"

definition getDefiniteUsages :: "assign_trace \<Rightarrow> nat" where
  "getDefiniteUsages t = at_definite_usages t"

definition hasDefiniteUsages :: "assign_trace \<Rightarrow> bool" where
  "hasDefiniteUsages t = (0 < at_definite_usages t)"

definition hasPotentialUsages :: "assign_trace \<Rightarrow> bool" where
  "hasPotentialUsages t = at_potential_usages t"

definition hasNameUsages :: "assign_trace \<Rightarrow> bool" where
  "hasNameUsages t = at_name_usages t"

definition getPrevious :: "assign_trace \<Rightarrow> variable_trace" where
  "getPrevious t = at_previous t"

definition setReplacementNode :: "assign_trace \<Rightarrow> expression \<Rightarrow> assign_trace" where
  "setReplacementNode t e = t\<lparr>at_replacement := Some e\<rparr>"

section \<open>Statement nodes\<close>

text \<open>
  A target reference is resolved before the rules run (the constructors assert
  \<^verbatim>\<open>isTargetVariableRef\<close>, the assignment rule asserts that the variable is not
  \<^verbatim>\<open>None\<close>), so it holds its variable. Source locations are left out.
\<close>

record target_variable_ref =
  ref_variable_name :: string
  ref_variable :: variable

record provider =
  isUnoptimized :: bool
  isClassDictCreation :: bool

record assignment_variable =
  av_source :: expression
  av_variable_ref :: target_variable_ref
  av_variable_trace :: "assign_trace option"
  av_provider :: provider

record assignment_attribute =
  aa_source :: expression
  aa_expression :: expression
  aa_attribute_name :: string

record assignment_subscript =
  as_source :: expression
  as_expression :: expression
  as_subscript :: expression

record assignment_slice =
  sl_source :: expression
  sl_expression :: expression
  sl_lower :: "expression option"
  sl_upper :: "expression option"

record del_variable =
  dv_variable_ref :: target_variable_ref
  dv_tolerant :: bool
  dv_variable_trace :: "variable_trace option"
  dv_previous_trace :: "variable_trace option"

record release_variable =
  rv_variable :: variable
  rv_variable_trace :: "variable_trace option"

record del_attribute =
  da_expression :: expression
  da_attribute_name :: string

record del_subscript =
  ds_expression :: expression
  ds_subscript :: expression

record del_slice =
  dl_expression :: expression
  dl_lower :: "expression option"
  dl_upper :: "expression option"

datatype statement =
    StatementAssignmentVariable assignment_variable
  | StatementAssignmentAttribute assignment_attribute
  | StatementAssignmentSubscript assignment_subscript
  | StatementAssignmentSlice assignment_slice
  | StatementDelVariable del_variable
  | StatementReleaseVariable release_variable
  | StatementDelAttribute del_attribute
  | StatementDelSubscript del_subscript
  | StatementDelSlice del_slice
  | StatementExpressionOnly expression
  | StatementsSequence "statement list"

section \<open>Predicates of the statement nodes\<close>

text \<open>\<^verbatim>\<open>StatementAssignmentVariable.mayRaiseException\<close>.\<close>

definition mayRaiseException_AssignmentVariable ::
  "assignment_variable \<Rightarrow> exception_type \<Rightarrow> bool" where
  "mayRaiseException_AssignmentVariable self exception_type =
     mayRaiseException (av_source self) exception_type"

datatype error = AttributeError

text \<open>
  \<^verbatim>\<open>StatementAssignmentVariable.needsReleaseValue\<close>. Python's \<^verbatim>\<open>False\<close>,
  \<^verbatim>\<open>True\<close> and \<^verbatim>\<open>None\<close> are \<open>Some False\<close>, \<open>Some True\<close> and \<open>None\<close>; before
  the rule has run \<^verbatim>\<open>variable_trace\<close> is \<^verbatim>\<open>None\<close> and the call fails.
\<close>

definition needsReleaseValue :: "assignment_variable \<Rightarrow> error + bool option" where
  "needsReleaseValue self =
     (case av_variable_trace self of
        None \<Rightarrow> Inl AttributeError
      | Some variable_trace \<Rightarrow>
          (let previous = getPrevious variable_trace in
           if mustNotHaveValue previous then Inr (Some False)
           else if mustHaveValue previous then Inr (Some True)
           else Inr None))"

text \<open>\<^verbatim>\<open>StatementDelVariable.mayHaveSideEffects\<close> and \<^verbatim>\<open>mayRaiseException\<close>.\<close>

definition mayHaveSideEffects_DelVariable :: "del_variable \<Rightarrow> bool" where
  "mayHaveSideEffects_DelVariable self = True"

definition mayRaiseException_DelVariable :: "del_variable \<Rightarrow> exception_type \<Rightarrow> bool" where
  "mayRaiseException_DelVariable self exception_type =
     (if dv_tolerant self then False
      else
        (case dv_variable_trace self of
           None \<Rightarrow> True
         | Some variable_trace \<Rightarrow>
             (let variable = ref_variable (dv_variable_ref self) in
              if \<not> isSharedTechnically variable then
                if isTempVariable variable then False
                else if (case dv_previous_trace self of
                           None \<Rightarrow> False
                         | Some previous_trace \<Rightarrow> mustHaveValue previous_trace)
                then False
                else True
              else True)))"

text \<open>\<^verbatim>\<open>StatementReleaseVariable.mayHaveSideEffects\<close> and \<^verbatim>\<open>mayRaiseException\<close>.\<close>

definition mayHaveSideEffects_ReleaseVariable :: "release_variable \<Rightarrow> bool" where
  "mayHaveSideEffects_ReleaseVariable self = True"

definition mayRaiseException_ReleaseVariable ::
  "release_variable \<Rightarrow> exception_type \<Rightarrow> bool" where
  "mayRaiseException_ReleaseVariable self exception_type = False"

section \<open>The constraint collection and the registry\<close>

text \<open>
  The calls a rule makes on its collaborators, in the order it makes them. The first six
  are the operations of the constraint collection; the last is \<^verbatim>\<open>setReplacementNode\<close> on
  the trace that \<^verbatim>\<open>onVariableSet\<close> returned, an object the collection holds too.
\<close>

datatype event =
    OnExpression "expression option"
  | OnVariableSet assignment_variable
  | OnVariableDel del_variable
  | OnVariableRelease variable
  | GetVariableCurrentTrace variable
  | OnControlFlowEscape statement
  | SetReplacementNode expression

text \<open>
  The constraint collection class is not part of the analysed file: its operations are
  parameters, over any type \<open>'c\<close> of collection states. \<^verbatim>\<open>onExpression\<close> replaces the
  child it analyses, so it returns the expression the child getter gives afterwards.
\<close>

record 'c collection_ops =
  cc_onExpression :: "expression \<Rightarrow> 'c \<Rightarrow> expression \<times> 'c"
  cc_onVariableSet :: "assignment_variable \<Rightarrow> 'c \<Rightarrow> assign_trace \<times> 'c"
  cc_onVariableDel :: "del_variable \<Rightarrow> 'c \<Rightarrow> variable_trace \<times> 'c"
  cc_onVariableRelease :: "variable \<Rightarrow> 'c \<Rightarrow> variable_trace \<times> 'c"
  cc_getVariableCurrentTrace :: "variable \<Rightarrow> 'c \<Rightarrow> variable_trace"
  cc_onControlFlowEscape :: "statement \<Rightarrow> 'c \<Rightarrow> 'c"

text \<open>A run: the state of the collection and the calls made so far.\<close>

type_synonym 'c run = "'c \<times> event list"

definition onExpression ::
  "'c collection_ops \<Rightarrow> expression \<Rightarrow> 'c run \<Rightarrow> expression \<times> 'c run" where
  "onExpression ops e s =
     (case cc_onExpression ops e (fst s) of
        (e', c') \<Rightarrow> (e', (c', snd s @ [OnExpression (Some e)])))"

text \<open>With \<^verbatim>\<open>allow_none = True\<close> a missing child is a no-op.\<close>

fun onExpression_allow_none ::
  "'c collection_ops \<Rightarrow> expression option \<Rightarrow> 'c run \<Rightarrow> expression option \<times> 'c run" where
  "onExpression_allow_none ops None s = (None, (fst s, snd s @ [OnExpression None]))"
| "onExpression_allow_none ops (Some e) s =
     (case onExpression ops e s of (e', s') \<Rightarrow> (Some e', s'))"

definition onVariableSet ::
  "'c collection_ops \<Rightarrow> assignment_variable \<Rightarrow> 'c run \<Rightarrow> assign_trace \<times> 'c run" where
  "onVariableSet ops assign_node s =
     (case cc_onVariableSet ops assign_node (fst s) of
        (t, c') \<Rightarrow> (t, (c', snd s @ [OnVariableSet assign_node])))"

definition onVariableDel ::
  "'c collection_ops \<Rightarrow> del_variable \<Rightarrow> 'c run \<Rightarrow> variable_trace \<times> 'c run" where
  "onVariableDel ops del_node s =
     (case cc_onVariableDel ops del_node (fst s) of
        (t, c') \<Rightarrow> (t, (c', snd s @ [OnVariableDel del_node])))"

definition onVariableRelease ::
  "'c collection_ops \<Rightarrow> variable \<Rightarrow> 'c run \<Rightarrow> variable_trace \<times> 'c run" where
  "onVariableRelease ops v s =
     (case cc_onVariableRelease ops v (fst s) of
        (t, c') \<Rightarrow> (t, (c', snd s @ [OnVariableRelease v])))"

definition getVariableCurrentTrace ::
  "'c collection_ops \<Rightarrow> variable \<Rightarrow> 'c run \<Rightarrow> variable_trace \<times> 'c run" where
  "getVariableCurrentTrace ops v s =
     (cc_getVariableCurrentTrace ops v (fst s), (fst s, snd s @ [GetVariableCurrentTrace v]))"

definition onControlFlowEscape :: "'c collection_ops \<Rightarrow> statement \<Rightarrow> 'c run \<Rightarrow> 'c run" where
  "onControlFlowEscape ops node s =
     (cc_onControlFlowEscape ops node (fst s), snd s @ [OnControlFlowEscape node])"

text \<open>
  \<^verbatim>\<open>Options.isExperimental()\<close> and \<^verbatim>\<open>VariableRegistry.getGlobalVariableTrace\<close>, both
  outside the analysed file and so parameters. A global trace is what its
  \<^verbatim>\<open>getMatchingAssignTrace\<close> answers for an assignment node.
\<close>

type_synonym global_trace = "assignment_variable \<Rightarrow> assign_trace option"

record environment =
  isExperimental :: bool
  getGlobalVariableTrace :: "variable \<Rightarrow> global_trace option"

section \<open>Making replacement statements\<close>

text \<open>
  Modelled from the spec: \<^verbatim>\<open>makeStatementExpressionOnlyReplacementNode\<close>,
  \<^verbatim>\<open>makeStatementOnlyNodesFromExpressions\<close> and
  \<^verbatim>\<open>makeStatementsSequenceReplacementNode\<close> of \<^verbatim>\<open>NodeMakingHelpers\<close> are not part of
  the analysed file. The first makes the bare evaluation of one expression, the second
  the sequence of the bare evaluations of the expressions it is given, in their order
  (an absent optional bound gives no statement), the third the sequence of the
  statements it is given.
\<close>

definition makeStatementExpressionOnlyReplacementNode :: "expression \<Rightarrow> statement" where
  "makeStatementExpressionOnlyReplacementNode expression = StatementExpressionOnly expression"

definition makeStatementOnlyNodesFromExpressions :: "expression option list \<Rightarrow> statement" where
  "makeStatementOnlyNodesFromExpressions expressions =
     StatementsSequence (map StatementExpressionOnly (List.map_filter id expressions))"

definition makeStatementsSequenceReplacementNode :: "statement list \<Rightarrow> statement" where
  "makeStatementsSequenceReplacementNode statements = StatementsSequence statements"

text \<open>
  What a rule hands back: the triple (replacement, change tag, description), where
  Python's \<^verbatim>\<open>None\<close> is \<open>None\<close>, or a single node where the source returns one.
\<close>

datatype return_value =
    Triple "statement option" "string option" "string option"
  | Node statement

definition new_statements :: "string option" where
  "new_statements = Some ''new_statements''"

definition new_raise :: "string option" where
  "new_raise = Some ''new_raise''"

definition quoted :: "string \<Rightarrow> string" where
  "quoted name = [CHR 0x27] @ name @ [CHR 0x27]"

section \<open>The rewrite rules of the mutation statements\<close>

text \<open>
  Every rule takes the node and the run and gives back what the source returns, the node
  as the rule leaves it (children replaced by their analysed versions, trace attributes
  set) and the run after the rule's calls.
\<close>

definition computeStatement_AssignmentAttribute ::
  "'c collection_ops \<Rightarrow> assignment_attribute \<Rightarrow> 'c run
     \<Rightarrow> return_value \<times> assignment_attribute \<times> 'c run" where
  "computeStatement_AssignmentAttribute ops self s =
     (case onExpression ops (aa_source self) s of (source, s1) \<Rightarrow>
      let self1 = self\<lparr>aa_source := source\<rparr> in
      if willRaiseException source then
        (Triple (Some (makeStatementExpressionOnlyReplacementNode source)) new_raise
           (Some ''Attribute assignment raises exception in assigned value, removed assignment.''),
         self1, s1)
      else
        (case onExpression ops (aa_expression self1) s1 of (lookup_source, s2) \<Rightarrow>
         let self2 = self1\<lparr>aa_expression := lookup_source\<rparr> in
         if willRaiseException lookup_source then
           (Triple (Some (makeStatementOnlyNodesFromExpressions
                            [Some source, Some lookup_source])) new_raise
              (Some ''Attribute assignment raises exception in source, removed assignment.''),
            self2, s2)
         else
           (Triple (Some (StatementAssignmentAttribute self2)) None None, self2,
            onControlFlowEscape ops (StatementAssignmentAttribute self2) s2)))"

definition computeStatement_AssignmentSubscript ::
  "'c collection_ops \<Rightarrow> assignment_subscript \<Rightarrow> 'c run
     \<Rightarrow> return_value \<times> assignment_subscript \<times> 'c run" where
  "computeStatement_AssignmentSubscript ops self s =
     (case onExpression ops (as_source self) s of (source, s1) \<Rightarrow>
      let self1 = self\<lparr>as_source := source\<rparr> in
      if willRaiseException source then
        (Triple (Some (makeStatementExpressionOnlyReplacementNode source)) new_raise
           (Some ''Subscript assignment raises exception in assigned value, removed assignment.''),
         self1, s1)
      else
        (case onExpression ops (as_expression self1) s1 of (subscribed, s2) \<Rightarrow>
         let self2 = self1\<lparr>as_expression := subscribed\<rparr> in
         if willRaiseException subscribed then
           (Triple (Some (makeStatementOnlyNodesFromExpressions
                            [Some source, Some subscribed])) new_raise
              (Some ''Subscript assignment raises exception in subscribed, removed assignment.''),
            self2, s2)
         else
           (case onExpression ops (as_subscript self2) s2 of (subscript, s3) \<Rightarrow>
            let self3 = self2\<lparr>as_subscript := subscript\<rparr> in
            if willRaiseException subscript then
              (Triple (Some (makeStatementOnlyNodesFromExpressions
                               [Some source, Some subscribed, Some subscript])) new_raise
                 (Some (CHR 0x0A #
                    ''Subscript assignment raises exception in subscript value, removed assignment.'')),
               self3, s3)
            else
              (Triple (Some (StatementAssignmentSubscript self3)) None None, self3,
               onControlFlowEscape ops (StatementAssignmentSubscript self3) s3))))"

text \<open>\<^verbatim>\<open>x is not None and x.willRaiseException(BaseException)\<close> of the slice rules.\<close>

fun presentAndWillRaise :: "expression option \<Rightarrow> bool" where
  "presentAndWillRaise None = False"
| "presentAndWillRaise (Some e) = willRaiseException e"

definition computeStatement_AssignmentSlice ::
  "'c collection_ops \<Rightarrow> assignment_slice \<Rightarrow> 'c run
     \<Rightarrow> return_value \<times> assignment_slice \<times> 'c run" where
  "computeStatement_AssignmentSlice ops self s =
     (case onExpression ops (sl_source self) s of (source, s1) \<Rightarrow>
      let self1 = self\<lparr>sl_source := source\<rparr> in
      if willRaiseException source then
        (Triple (Some (makeStatementExpressionOnlyReplacementNode source)) new_raise
           (Some ''Slice assignment raises exception in assigned value, removed assignment.''),
         self1, s1)
      else
        (case onExpression ops (sl_expression self1) s1 of (lookup_source, s2) \<Rightarrow>
         let self2 = self1\<lparr>sl_expression := lookup_source\<rparr> in
         if willRaiseException lookup_source then
           (Triple (Some (makeStatementOnlyNodesFromExpressions
                            [Some source, Some lookup_source])) new_raise
              (Some ''Slice assignment raises exception in sliced value, removed assignment.''),
            self2, s2)
         else
           (case onExpression_allow_none ops (sl_lower self2) s2 of (lower, s3) \<Rightarrow>
            let self3 = self2\<lparr>sl_lower := lower\<rparr> in
            if presentAndWillRaise lower then
              (Triple (Some (makeStatementOnlyNodesFromExpressions
                               [Some source, Some lookup_source, lower])) new_raise
                 (Some ''Slice assignment raises exception in lower slice boundary value, removed assignment.''),
               self3, s3)
            else
              (case onExpression_allow_none ops (sl_upper self3) s3 of (upper, s4) \<Rightarrow>
               let self4 = self3\<lparr>sl_upper := upper\<rparr> in
               if presentAndWillRaise upper then
                 (Triple (Some (makeStatementOnlyNodesFromExpressions
                                  [Some source, Some lookup_source, lower, upper])) new_raise
                    (Some ''Slice assignment raises exception in upper slice boundary value, removed assignment.''),
                  self4, s4)
               else
                 (Triple (Some (StatementAssignmentSlice self4)) None None, self4,
                  onControlFlowEscape ops (StatementAssignmentSlice self4) s4)))))"

section \<open>The rewrite rules of the deletions and of the release\<close>

definition computeStatement_DelVariable ::
  "'c collection_ops \<Rightarrow> del_variable \<Rightarrow> 'c run \<Rightarrow> return_value \<times> del_variable \<times> 'c run" where
  "computeStatement_DelVariable ops self s =
     (case onVariableDel ops self s of (previous_trace, s1) \<Rightarrow>
      let self1 = self\<lparr>dv_previous_trace := Some previous_trace\<rparr>;
          variable = ref_variable (dv_variable_ref self1) in
      if dv_tolerant self1 \<and> isUninitTrace previous_trace then
        (Triple None new_statements
           (Some (''Removed tolerant '' @ quoted ''del'' @ '' statement of ''
                    @ quoted (getName variable) @ '' without effect.'')),
         self1, s1)
      else
        (case getVariableCurrentTrace ops variable
                (onControlFlowEscape ops (StatementDelVariable self1) s1) of
           (variable_trace, s3) \<Rightarrow>
             let self2 = self1\<lparr>dv_variable_trace := Some variable_trace\<rparr> in
             (Triple (Some (StatementDelVariable self2)) None None, self2, s3)))"

definition computeStatement_ReleaseVariable ::
  "'c collection_ops \<Rightarrow> release_variable \<Rightarrow> 'c run
     \<Rightarrow> return_value \<times> release_variable \<times> 'c run" where
  "computeStatement_ReleaseVariable ops self s =
     (case onVariableRelease ops (rv_variable self) s of (variable_trace, s1) \<Rightarrow>
      let self1 = self\<lparr>rv_variable_trace := Some variable_trace\<rparr> in
      if isUninitTrace variable_trace then
        (Triple None new_statements
           (Some (''Uninitialized variable '' @ quoted (getName (rv_variable self1))
                    @ '' is not released.'')),
         self1, s1)
      else (Triple (Some (StatementReleaseVariable self1)) None None, self1, s1))"

definition computeStatement_DelAttribute ::
  "'c collection_ops \<Rightarrow> del_attribute \<Rightarrow> 'c run
     \<Rightarrow> return_value \<times> del_attribute \<times> 'c run" where
  "computeStatement_DelAttribute ops self s =
     (case onExpression ops (da_expression self) s of (lookup_source, s1) \<Rightarrow>
      let self1 = self\<lparr>da_expression := lookup_source\<rparr> in
      if willRaiseException lookup_source then
        (Node (makeStatementExpressionOnlyReplacementNode lookup_source), self1, s1)
      else
        (Triple (Some (StatementDelAttribute self1)) None None, self1,
         onControlFlowEscape ops (StatementDelAttribute self1) s1))"

definition computeStatement_DelSubscript ::
  "'c collection_ops \<Rightarrow> del_subscript \<Rightarrow> 'c run
     \<Rightarrow> return_value \<times> del_subscript \<times> 'c run" where
  "computeStatement_DelSubscript ops self s =
     (case onExpression ops (ds_expression self) s of (subscribed, s1) \<Rightarrow>
      let self1 = self\<lparr>ds_expression := subscribed\<rparr> in
      if willRaiseException subscribed then
        (Triple (Some (makeStatementExpressionOnlyReplacementNode subscribed)) new_raise
           (Some (''Subscript '' @ quoted ''del''
                    @ '' raises exception in subscribed value, removed del.'')),
         self1, s1)
      else
        (case onExpression ops (ds_subscript self1) s1 of (subscript, s2) \<Rightarrow>
         let self2 = self1\<lparr>ds_subscript := subscript\<rparr> in
         if willRaiseException subscript then
           (Triple (Some (makeStatementOnlyNodesFromExpressions
                            [Some subscribed, Some subscript])) new_raise
              (Some (''Subscript '' @ quoted ''del''
                       @ '' raises exception in subscript value, removed del.'')),
            self2, s2)
         else
           (Triple (Some (StatementDelSubscript self2)) None None, self2,
            onControlFlowEscape ops (StatementDelSubscript self2) s2)))"

definition computeStatement_DelSlice ::
  "'c collection_ops \<Rightarrow> del_slice \<Rightarrow> 'c run \<Rightarrow> return_value \<times> del_slice \<times> 'c run" where
  "computeStatement_DelSlice ops self s =
     (case onExpression ops (dl_expression self) s of (lookup_source, s1) \<Rightarrow>
      let self1 = self\<lparr>dl_expression := lookup_source\<rparr> in
      if willRaiseException lookup_source then
        (Triple (Some (makeStatementExpressionOnlyReplacementNode lookup_source)) new_raise
           (Some ''Slice del raises exception in sliced value, removed del''),
         self1, s1)
      else
        (case onExpression_allow_none ops (dl_lower self1) s1 of (lower, s2) \<Rightarrow>
         let self2 = self1\<lparr>dl_lower := lower\<rparr> in
         if presentAndWillRaise lower then
           (Triple (Some (makeStatementOnlyNodesFromExpressions
                            [Some lookup_source, lower])) new_raise
              (Some (CHR 0x0A #
                 ''Slice del raises exception in lower slice boundary value, removed del'')),
            self2, s2)
         else
           (case onExpression_allow_none ops (dl_upper self2) s2 of (upper, s3) \<Rightarrow>
            let self3 = self2\<lparr>dl_upper := upper\<rparr> in
            if presentAndWillRaise upper then
              (Triple (Some (makeStatementOnlyNodesFromExpressions
                               [Some lookup_source, lower, upper])) new_raise
                 (Some (CHR 0x0A #
                    ''Slice del raises exception in upper slice boundary value, removed del'')),
               self3, s3)
            else
              (Triple (Some (StatementDelSlice self3)) None None, self3,
               onControlFlowEscape ops (StatementDelSlice self3) s3))))"

section \<open>The rewrite rule of the assignment to a variable\<close>

text \<open>\<^verbatim>\<open>return self, None, None\<close>, the end every branch that drops nothing falls to.\<close>

definition keepAssignment ::
  "assignment_variable \<Rightarrow> 'c run \<Rightarrow> return_value \<times> assignment_variable \<times> 'c run" where
  "keepAssignment self s = (Triple (Some (StatementAssignmentVariable self)) None None, self, s)"

text \<open>
  The return of both propagation branches: a tolerant delete of the target when the
  trace before the matching assign trace is not uninitialised, nothing otherwise, with
  the description \<^verbatim>\<open>"Dropped %s assignment statement to '%s'."\<close>.
\<close>

definition dropAssignment :: "assignment_variable \<Rightarrow> assign_trace \<Rightarrow> bool \<Rightarrow> return_value" where
  "dropAssignment self last_trace propagated =
     Triple
       (if \<not> isUninitTrace (getPrevious last_trace) then
          Some (StatementDelVariable
                  \<lparr>dv_variable_ref = av_variable_ref self, dv_tolerant = True,
                   dv_variable_trace = None, dv_previous_trace = None\<rparr>)
        else None)
       new_statements
       (Some (''Dropped '' @ (if propagated then ''propagated'' else ''dead'')
                @ '' assignment statement to ''
                @ quoted (ref_variable_name (av_variable_ref self)) @ ''.''))"

text \<open>
  \<^verbatim>\<open>self.variable_trace.setReplacementNode(lambda usage : source.makeClone())\<close>: the
  trace of the node gets the replacement, and the call is recorded in the run.
\<close>

definition registerReplacement ::
  "assignment_variable \<Rightarrow> assign_trace \<Rightarrow> expression \<Rightarrow> 'c run
     \<Rightarrow> assignment_variable \<times> 'c run" where
  "registerReplacement self variable_trace source s =
     (self\<lparr>av_variable_trace := Some (setReplacementNode variable_trace source)\<rparr>,
      (fst s, snd s @ [SetReplacementNode source]))"

text \<open>
  The part of the rule after \<^verbatim>\<open>onVariableSet\<close>: the lookup in the registry and the two
  propagation branches, for a compile-time constant and for a function creation.
\<close>

definition propagateAssignment ::
  "environment \<Rightarrow> assignment_variable \<Rightarrow> assign_trace \<Rightarrow> 'c run
     \<Rightarrow> return_value \<times> assignment_variable \<times> 'c run" where
  "propagateAssignment env self variable_trace s =
     (let source = av_source self;
          variable = ref_variable (av_variable_ref self);
          provider = av_provider self in
      case getGlobalVariableTrace env variable of
        None \<Rightarrow> keepAssignment self s
      | Some global_trace \<Rightarrow>
          if \<not> isExperimental env then keepAssignment self s
          else
            (case global_trace self of
               None \<Rightarrow> keepAssignment self s
             | Some last_trace \<Rightarrow>
                 if isLocalVariable variable \<or> isTempVariable variable then
                   if isCompileTimeConstant source then
                     if \<not> isMutable source then
                       if isTempVariable variable \<or>
                          (\<not> isUnoptimized provider \<and> \<not> isClassDictCreation provider) then
                         (let propagated = hasDefiniteUsages last_trace in
                          case (if propagated
                                then registerReplacement self variable_trace source s
                                else (self, s)) of
                            (self', s') \<Rightarrow>
                              if \<not> hasPotentialUsages last_trace \<and> \<not> hasNameUsages last_trace then
                                if \<not> isSharedLogically variable then
                                  (dropAssignment self' last_trace propagated, self', s')
                                else keepAssignment self' s'
                              else keepAssignment self' s')
                       else keepAssignment self s
                     else keepAssignment self s
                   else if isExperimental env \<and> isPlainFunctionCreation source then
                     if isTempVariable variable \<or>
                        (\<not> isUnoptimized provider \<and> \<not> isClassDictCreation provider) then
                       if \<not> isSharedLogically variable then
                         if getDefiniteUsages last_trace \<le> 1 \<and> \<not> hasPotentialUsages last_trace
                            \<and> \<not> hasNameUsages last_trace then
                           (let propagated = (getDefiniteUsages last_trace = 1) in
                            case (if propagated
                                  then registerReplacement self variable_trace source s
                                  else (self, s)) of
                              (self', s') \<Rightarrow>
                                (dropAssignment self' last_trace propagated, self', s'))
                         else keepAssignment self s
                       else keepAssignment self s
                     else keepAssignment self s
                   else keepAssignment self s
                 else keepAssignment self s))"

definition computeStatement_AssignmentVariable ::
  "environment \<Rightarrow> 'c collection_ops \<Rightarrow> assignment_variable \<Rightarrow> 'c run
     \<Rightarrow> return_value \<times> assignment_variable \<times> 'c run" where
  "computeStatement_AssignmentVariable env ops self s =
     (case onExpression ops (av_source self) s of (source, s1) \<Rightarrow>
      let self1 = self\<lparr>av_source := source\<rparr> in
      if willRaiseException source then
        (Triple (Some (makeStatementExpressionOnlyReplacementNode source)) new_raise
           (Some ''Assignment raises exception in assigned value, removed assignment.''),
         self1, s1)
      else
        (let variable = ref_variable (av_variable_ref self1) in
         if \<not> isModuleVariable variable \<and> isExpressionVariableRef source
            \<and> getVariable source = Some variable then
           if mayHaveSideEffects source then
             (Triple (Some (makeStatementExpressionOnlyReplacementNode source)) new_statements
                (Some ''Reduced assignment of variable from itself to access of it.''),
              self1, s1)
           else
             (Triple None new_statements
                (Some ''Removed assignment of variable from itself which is known to be defined.''),
              self1, s1)
         else if isExpressionSideEffects source then
           (let self2 = self1\<lparr>av_source := getExpression source\<rparr> in
            (Triple (Some (makeStatementsSequenceReplacementNode
                             (map makeStatementExpressionOnlyReplacementNode
                                  (getSideEffects source)
                              @ [StatementAssignmentVariable self2])))
               new_statements
               (Some ''Side effects of assignments promoted to statements.''),
             self2, s1))
         else
           (case onVariableSet ops self1 s1 of (variable_trace, s2) \<Rightarrow>
            propagateAssignment env (self1\<lparr>av_variable_trace := Some variable_trace\<rparr>)
              variable_trace s2)))"

section \<open>Concrete nodes and a small collection\<close>

text \<open>
  Modelled from the spec: a small constraint collection, used to run the rules on
  concrete statements. It keeps the current trace of every variable name and an escape
  flag; \<^verbatim>\<open>onVariableSet\<close> chains a new assign trace to the current one,
  \<^verbatim>\<open>onVariableDel\<close> moves to the uninitialised trace and returns the trace before, and
  the expression analysis leaves an analysed expression as it is.
\<close>

record example_collection =
  ex_traces :: "string \<Rightarrow> variable_trace"
  ex_escaped :: bool

definition uninit_trace :: variable_trace where
  "uninit_trace = \<lparr>isUninitTrace = True, mustHaveValue = False, mustNotHaveValue = True\<rparr>"

definition assigned_trace :: variable_trace where
  "assigned_trace = \<lparr>isUninitTrace = False, mustHaveValue = True, mustNotHaveValue = False\<rparr>"

definition merged_trace :: variable_trace where
  "merged_trace = \<lparr>isUninitTrace = False, mustHaveValue = False, mustNotHaveValue = False\<rparr>"

definition example_ops :: "example_collection collection_ops" where
  "example_ops =
     \<lparr>cc_onExpression = (\<lambda>e c. (e, c)),
      cc_onVariableSet = (\<lambda>node c.
        (\<lparr>at_definite_usages = 0, at_potential_usages = False, at_name_usages = False,
          at_previous = ex_traces c (var_name (ref_variable (av_variable_ref node))),
          at_replacement = None\<rparr>,
         c\<lparr>ex_traces := (ex_traces c)
              (var_name (ref_variable (av_variable_ref node)) := assigned_trace)\<rparr>)),
      cc_onVariableDel = (\<lambda>node c.
        (ex_traces c (var_name (ref_variable (dv_variable_ref node))),
         c\<lparr>ex_traces := (ex_traces c)
              (var_name (ref_variable (dv_variable_ref node)) := uninit_trace)\<rparr>)),
      cc_onVariableRelease = (\<lambda>v c. (ex_traces c (var_name v), c)),
      cc_getVariableCurrentTrace = (\<lambda>v c. ex_traces c (var_name v)),
      cc_onControlFlowEscape = (\<lambda>node c. c\<lparr>ex_escaped := True\<rparr>)\<rparr>"

definition all_uninit :: example_collection where
  "all_uninit = \<lparr>ex_traces = (\<lambda>n. uninit_trace), ex_escaped = False\<rparr>"

definition all_assigned :: example_collection where
  "all_assigned = \<lparr>ex_traces = (\<lambda>n. assigned_trace), ex_escaped = False\<rparr>"

definition plain_facts :: expression_facts where
  "plain_facts =
     \<lparr>fact_will_raise = False, fact_may_raise = (\<lambda>t. False), fact_side_effects = False,
      fact_compile_time_constant = False, fact_mutable = False\<rparr>"

definition raising_facts :: expression_facts where
  "raising_facts =
     \<lparr>fact_will_raise = True, fact_may_raise = (\<lambda>t. True), fact_side_effects = True,
      fact_compile_time_constant = False, fact_mutable = False\<rparr>"

definition constant_facts :: expression_facts where
  "constant_facts =
     \<lparr>fact_will_raise = False, fact_may_raise = (\<lambda>t. False), fact_side_effects = False,
      fact_compile_time_constant = True, fact_mutable = False\<rparr>"

definition local_x :: variable where
  "local_x =
     \<lparr>var_name = ''x'', var_kind = LocalVariable, var_shared_logically = False,
      var_shared_technically = False\<rparr>"

definition shared_x :: variable where
  "shared_x =
     \<lparr>var_name = ''x'', var_kind = LocalVariable, var_shared_logically = True,
      var_shared_technically = True\<rparr>"

definition target :: "variable \<Rightarrow> target_variable_ref" where
  "target v = \<lparr>ref_variable_name = var_name v, ref_variable = v\<rparr>"

definition function_provider :: provider where
  "function_provider = \<lparr>isUnoptimized = False, isClassDictCreation = False\<rparr>"

definition traced_assignment :: "variable_trace \<Rightarrow> assignment_variable" where
  "traced_assignment previous =
     \<lparr>av_source = ExpressionOther ''f()'' plain_facts, av_variable_ref = target local_x,
      av_variable_trace =
        Some \<lparr>at_definite_usages = 0, at_potential_usages = False, at_name_usages = False,
              at_previous = previous, at_replacement = None\<rparr>,
      av_provider = function_provider\<rparr>"

text \<open>
  A non-tolerant \<^verbatim>\<open>del x\<close> of a technically shared local variable, as its rule leaves it
  when the variable held a value before.
\<close>

definition computed_del_shared :: del_variable where
  "computed_del_shared =
     \<lparr>dv_variable_ref = target shared_x, dv_tolerant = False,
      dv_variable_trace = Some uninit_trace, dv_previous_trace = Some assigned_trace\<rparr>"

definition release_x :: release_variable where
  "release_x = \<lparr>rv_variable = local_x, rv_variable_trace = None\<rparr>"

definition del_x :: "bool \<Rightarrow> del_variable" where
  "del_x tolerant =
     \<lparr>dv_variable_ref = target local_x, dv_tolerant = tolerant, dv_variable_trace = None,
      dv_previous_trace = None\<rparr>"

text \<open>\<^verbatim>\<open>d[k] = v\<close> and \<^verbatim>\<open>d[l:u] = v\<close> where analysis finds that \<^verbatim>\<open>k\<close>, \<^verbatim>\<open>l\<close> always raise.\<close>

definition subscript_raising_key :: assignment_subscript where
  "subscript_raising_key =
     \<lparr>as_source = ExpressionOther ''v'' plain_facts,
      as_expression = ExpressionOther ''d'' plain_facts,
      as_subscript = ExpressionOther ''k'' raising_facts\<rparr>"

definition slice_raising_lower :: assignment_slice where
  "slice_raising_lower =
     \<lparr>sl_source = ExpressionOther ''v'' plain_facts,
      sl_expression = ExpressionOther ''d'' plain_facts,
      sl_lower = Some (ExpressionOther ''l'' raising_facts),
      sl_upper = Some (ExpressionOther ''u'' plain_facts)\<rparr>"

text \<open>\<^verbatim>\<open>x = x\<close> for the local variable, the read with and without a side effect.\<close>

definition self_assignment :: "bool \<Rightarrow> assignment_variable" where
  "self_assignment side_effect =
     \<lparr>av_source = ExpressionVariableRef local_x (plain_facts\<lparr>fact_side_effects := side_effect\<rparr>),
      av_variable_ref = target local_x, av_variable_trace = None,
      av_provider = function_provider\<rparr>"

definition no_registry :: environment where
  "no_registry = \<lparr>isExperimental = False, getGlobalVariableTrace = (\<lambda>v. None)\<rparr>"

text \<open>
  \<^verbatim>\<open>x = 1\<close>, an immutable compile-time constant assigned to a variable inside a function,
  and a registry whose matching assign trace of the last pass is the given one, with
  experimental mode on.
\<close>

definition constant_assignment :: "variable \<Rightarrow> assignment_variable" where
  "constant_assignment v =
     \<lparr>av_source = ExpressionOther ''1'' constant_facts, av_variable_ref = target v,
      av_variable_trace = None, av_provider = function_provider\<rparr>"

definition registry_with :: "assign_trace \<Rightarrow> environment" where
  "registry_with last_trace =
     \<lparr>isExperimental = True,
      getGlobalVariableTrace = (\<lambda>v. Some (\<lambda>node. Some last_trace))\<rparr>"

definition used_times :: "nat \<Rightarrow> assign_trace" where
  "used_times n =
     \<lparr>at_definite_usages = n, at_potential_usages = False, at_name_usages = False,
      at_previous = uninit_trace, at_replacement = None\<rparr>"

text \<open>
  The assignment is dropped when the replacement is nothing or the tolerant delete that
  \<^verbatim>\<open>dropAssignment\<close> makes.
\<close>

fun dropsAssignment :: "return_value \<Rightarrow> bool" where
  "dropsAssignment (Triple None tag description) = True"
| "dropsAssignment (Triple (Some (StatementDelVariable n)) tag description) = True"
| "dropsAssignment rv = False"

text \<open>\<^verbatim>\<open>del o.a\<close> where analysis finds that \<^verbatim>\<open>o\<close> always raises.\<close>

definition del_attribute_raising :: del_attribute where
  "del_attribute_raising =
     \<lparr>da_expression = ExpressionOther ''o'' raising_facts, da_attribute_name = ''a''\<rparr>"

text \<open>
  The common return contract: a triple whose change tag is \<^verbatim>\<open>None\<close>,
  \<^verbatim>\<open>"new_statements"\<close> or \<^verbatim>\<open>"new_raise"\<close>, with a non-empty description beside the last
  two. The replacement of a triple is a statement or nothing by its type.
\<close>

fun honoursReturnContract :: "return_value \<Rightarrow> bool" where
  "honoursReturnContract (Triple replacement None description) = True"
| "honoursReturnContract (Triple replacement (Some tag) description) =
     ((tag = ''new_statements'' \<or> tag = ''new_raise'')
      \<and> (case description of None \<Rightarrow> False | Some reason \<Rightarrow> reason \<noteq> []))"
| "honoursReturnContract (Node n) = False"

section \<open>Properties of the rules\<close>

text \<open>
  C9. For every assign-to-variable statement and every exception type, the statement may
  raise exactly when its assignment source may: the assignment itself adds nothing.
\<close>

theorem assignment_mayRaiseException_is_source:
  "mayRaiseException_AssignmentVariable self exception_type
     = mayRaiseException (av_source self) exception_type"
  by (simp add: mayRaiseException_AssignmentVariable_def)

text \<open>
  C10. For an assign-to-variable statement whose trace has been recorded,
  \<^verbatim>\<open>needsReleaseValue\<close> is three-valued in the previous trace: false when it must not
  have a value, true when it must have one (and not the former), unknown otherwise.
\<close>

theorem needsReleaseValue_three_valued:
  assumes "av_variable_trace self = Some variable_trace"
  shows "needsReleaseValue self =
           Inr (if mustNotHaveValue (getPrevious variable_trace) then Some False
                else if mustHaveValue (getPrevious variable_trace) then Some True
                else None)"
  using assms by (simp add: needsReleaseValue_def Let_def)

theorem needsReleaseValue_three_valued_witness:
  "needsReleaseValue (traced_assignment uninit_trace) = Inr (Some False)
   \<and> needsReleaseValue (traced_assignment assigned_trace) = Inr (Some True)
   \<and> needsReleaseValue (traced_assignment merged_trace) = Inr None"
  using needsReleaseValue_three_valued [of "traced_assignment uninit_trace"]
    needsReleaseValue_three_valued [of "traced_assignment assigned_trace"]
    needsReleaseValue_three_valued [of "traced_assignment merged_trace"]
  by (simp add: traced_assignment_def getPrevious_def uninit_trace_def assigned_trace_def
      merged_trace_def)

text \<open>
  C7, as the code has it. A tolerant delete never may raise. A non-tolerant delete may
  raise unless its rule has recorded the variable trace, the variable is not technically
  shared, and the variable is a temporary or the recorded previous trace must have a value.
\<close>

theorem del_variable_mayRaiseException:
  "mayRaiseException_DelVariable self exception_type =
     (\<not> dv_tolerant self \<and>
      \<not> (dv_variable_trace self \<noteq> None
         \<and> \<not> isSharedTechnically (ref_variable (dv_variable_ref self))
         \<and> (isTempVariable (ref_variable (dv_variable_ref self))
            \<or> (\<exists>previous_trace. dv_previous_trace self = Some previous_trace
                  \<and> mustHaveValue previous_trace))))"
  by (auto simp: mayRaiseException_DelVariable_def Let_def split: option.splits)

text \<open>
  C7 as stated fails: a non-tolerant delete of a technically shared variable may raise
  although its previous trace must have a value.
\<close>

theorem del_variable_mayRaiseException_counterexample:
  "\<not> dv_tolerant computed_del_shared
   \<and> dv_variable_trace computed_del_shared = Some uninit_trace
   \<and> dv_previous_trace computed_del_shared = Some assigned_trace
   \<and> mustHaveValue assigned_trace
   \<and> isSharedTechnically (ref_variable (dv_variable_ref computed_del_shared))
   \<and> mayRaiseException_DelVariable computed_del_shared ''NameError''"
  by (simp add: computed_del_shared_def mayRaiseException_DelVariable_def
      assigned_trace_def target_def shared_x_def isSharedTechnically_def)

text \<open>
  C8. The release rule calls \<^verbatim>\<open>onVariableRelease\<close> for its variable, and nothing else; it
  removes the statement (replacement \<^verbatim>\<open>None\<close>, tag \<^verbatim>\<open>new_statements\<close>) when the trace it
  gets is uninitialised and keeps the statement, with that trace recorded, when it is not.
  A release always may have side effects and never may raise, whatever the exception type.
\<close>

theorem release_variable_rule:
  assumes "cc_onVariableRelease ops (rv_variable self) c = (variable_trace, c')"
  shows "computeStatement_ReleaseVariable ops self (c, calls) =
           (if isUninitTrace variable_trace then
              Triple None (Some ''new_statements'')
                (Some (''Uninitialized variable '' @ quoted (getName (rv_variable self))
                         @ '' is not released.''))
            else
              Triple (Some (StatementReleaseVariable
                              (self\<lparr>rv_variable_trace := Some variable_trace\<rparr>))) None None,
            self\<lparr>rv_variable_trace := Some variable_trace\<rparr>,
            (c', calls @ [OnVariableRelease (rv_variable self)]))
         \<and> mayHaveSideEffects_ReleaseVariable self
         \<and> \<not> mayRaiseException_ReleaseVariable self exception_type"
  using assms
  by (simp add: computeStatement_ReleaseVariable_def onVariableRelease_def Let_def
      new_statements_def mayHaveSideEffects_ReleaseVariable_def
      mayRaiseException_ReleaseVariable_def)

theorem release_variable_rule_witness:
  "fst (computeStatement_ReleaseVariable example_ops release_x (all_uninit, [])) =
     Triple None (Some ''new_statements'')
       (Some (''Uninitialized variable '' @ quoted ''x'' @ '' is not released.''))
   \<and> fst (computeStatement_ReleaseVariable example_ops release_x (all_assigned, [])) =
     Triple (Some (StatementReleaseVariable (release_x\<lparr>rv_variable_trace := Some assigned_trace\<rparr>)))
       None None
   \<and> mayHaveSideEffects_ReleaseVariable release_x
   \<and> \<not> mayRaiseException_ReleaseVariable release_x ''BaseException''"
proof -
  have u: "cc_onVariableRelease example_ops (rv_variable release_x) all_uninit
             = (uninit_trace, all_uninit)"
    by (simp add: example_ops_def all_uninit_def)
  have a: "cc_onVariableRelease example_ops (rv_variable release_x) all_assigned
             = (assigned_trace, all_assigned)"
    by (simp add: example_ops_def all_assigned_def)
  show ?thesis
    using release_variable_rule [OF u, where calls = "[]" and exception_type = "''BaseException''"]
      release_variable_rule [OF a, where calls = "[]" and exception_type = "''BaseException''"]
    by (simp add: uninit_trace_def assigned_trace_def release_x_def getName_def local_x_def)
qed

text \<open>
  C6. The delete rule first calls \<^verbatim>\<open>onVariableDel\<close> and records the trace it returns as
  the previous trace. When the statement is tolerant and that trace is uninitialised, the
  statement is removed with tag \<^verbatim>\<open>new_statements\<close> and nothing else is called. In every
  other case the rule calls \<^verbatim>\<open>onControlFlowEscape\<close>, then \<^verbatim>\<open>getVariableCurrentTrace\<close> on
  the collection after the escape, records that trace and returns the statement itself.
\<close>

theorem del_variable_rule:
  assumes "cc_onVariableDel ops self c = (previous_trace, c1)"
  shows "computeStatement_DelVariable ops self (c, calls) =
           (if dv_tolerant self \<and> isUninitTrace previous_trace then
              (Triple None (Some ''new_statements'')
                 (Some (''Removed tolerant '' @ quoted ''del'' @ '' statement of ''
                          @ quoted (getName (ref_variable (dv_variable_ref self)))
                          @ '' without effect.'')),
               self\<lparr>dv_previous_trace := Some previous_trace\<rparr>,
               (c1, calls @ [OnVariableDel self]))
            else
              (let self1 = self\<lparr>dv_previous_trace := Some previous_trace\<rparr>;
                   variable = ref_variable (dv_variable_ref self);
                   c2 = cc_onControlFlowEscape ops (StatementDelVariable self1) c1;
                   self2 = self1\<lparr>dv_variable_trace :=
                             Some (cc_getVariableCurrentTrace ops variable c2)\<rparr>
               in (Triple (Some (StatementDelVariable self2)) None None, self2,
                   (c2, calls @ [OnVariableDel self,
                                 OnControlFlowEscape (StatementDelVariable self1),
                                 GetVariableCurrentTrace variable]))))"
  using assms
  by (simp add: computeStatement_DelVariable_def onVariableDel_def Let_def
      new_statements_def onControlFlowEscape_def getVariableCurrentTrace_def)

theorem del_variable_rule_witness:
  "fst (computeStatement_DelVariable example_ops (del_x True) (all_uninit, [])) =
     Triple None (Some ''new_statements'')
       (Some (''Removed tolerant '' @ quoted ''del'' @ '' statement of '' @ quoted ''x''
                @ '' without effect.''))
   \<and> snd (snd (computeStatement_DelVariable example_ops (del_x True) (all_uninit, []))) =
     (all_uninit, [OnVariableDel (del_x True)])
   \<and> computeStatement_DelVariable example_ops (del_x False) (all_assigned, []) =
     (Triple (Some (StatementDelVariable
                (del_x False\<lparr>dv_variable_trace := Some uninit_trace,
                              dv_previous_trace := Some assigned_trace\<rparr>))) None None,
      del_x False\<lparr>dv_variable_trace := Some uninit_trace,
                   dv_previous_trace := Some assigned_trace\<rparr>,
      (\<lparr>ex_traces = (\<lambda>n. assigned_trace)(''x'' := uninit_trace), ex_escaped = True\<rparr>,
       [OnVariableDel (del_x False),
        OnControlFlowEscape
          (StatementDelVariable (del_x False\<lparr>dv_previous_trace := Some assigned_trace\<rparr>)),
        GetVariableCurrentTrace local_x]))"
proof -
  have u: "cc_onVariableDel example_ops (del_x True) all_uninit = (uninit_trace, all_uninit)"
    by (simp add: example_ops_def all_uninit_def fun_eq_iff)
  have a: "cc_onVariableDel example_ops (del_x False) all_assigned
             = (assigned_trace,
                \<lparr>ex_traces = (\<lambda>n. assigned_trace)(''x'' := uninit_trace), ex_escaped = False\<rparr>)"
    by (simp add: example_ops_def all_assigned_def del_x_def target_def local_x_def)
  show ?thesis
    using del_variable_rule [OF u, where calls = "[]"] del_variable_rule [OF a, where calls = "[]"]
    by (simp add: uninit_trace_def assigned_trace_def del_x_def getName_def local_x_def
        target_def example_ops_def Let_def)
qed

text \<open>
  C2, as the code has it. When the analysed source and subscribed expression do not
  always raise and the analysed subscript does, the rule analyses the three children in
  that order and returns, tagged \<^verbatim>\<open>new_raise\<close>, the sequence of the bare evaluations of
  source, subscribed expression and subscript: the assignment itself is dropped, the
  raising subscript is kept.
\<close>

theorem assignment_subscript_raising_subscript:
  assumes "cc_onExpression ops (as_source self) c = (source, c1)"
    and "\<not> willRaiseException source"
    and "cc_onExpression ops (as_expression self) c1 = (subscribed, c2)"
    and "\<not> willRaiseException subscribed"
    and "cc_onExpression ops (as_subscript self) c2 = (subscript, c3)"
    and "willRaiseException subscript"
  shows "computeStatement_AssignmentSubscript ops self (c, calls) =
           (Triple
              (Some (StatementsSequence
                 [StatementExpressionOnly source, StatementExpressionOnly subscribed,
                  StatementExpressionOnly subscript]))
              (Some ''new_raise'')
              (Some (CHR 0x0A #
                 ''Subscript assignment raises exception in subscript value, removed assignment.'')),
            self\<lparr>as_source := source, as_expression := subscribed, as_subscript := subscript\<rparr>,
            (c3, calls @ [OnExpression (Some (as_source self)),
                          OnExpression (Some (as_expression self)),
                          OnExpression (Some (as_subscript self))]))"
  using assms
  by (simp add: computeStatement_AssignmentSubscript_def onExpression_def Let_def
      new_raise_def makeStatementOnlyNodesFromExpressions_def List.map_filter_simps)

theorem assignment_subscript_raising_subscript_witness:
  "fst (computeStatement_AssignmentSubscript example_ops subscript_raising_key (all_assigned, [])) =
     Triple
       (Some (StatementsSequence
          [StatementExpressionOnly (ExpressionOther ''v'' plain_facts),
           StatementExpressionOnly (ExpressionOther ''d'' plain_facts),
           StatementExpressionOnly (ExpressionOther ''k'' raising_facts)]))
       (Some ''new_raise'')
       (Some (CHR 0x0A #
          ''Subscript assignment raises exception in subscript value, removed assignment.''))"
proof -
  have 1: "cc_onExpression example_ops (as_source subscript_raising_key) all_assigned
             = (ExpressionOther ''v'' plain_facts, all_assigned)"
    by (simp add: example_ops_def subscript_raising_key_def)
  have 2: "cc_onExpression example_ops (as_expression subscript_raising_key) all_assigned
             = (ExpressionOther ''d'' plain_facts, all_assigned)"
    by (simp add: example_ops_def subscript_raising_key_def)
  have 3: "cc_onExpression example_ops (as_subscript subscript_raising_key) all_assigned
             = (ExpressionOther ''k'' raising_facts, all_assigned)"
    by (simp add: example_ops_def subscript_raising_key_def)
  have 4: "\<not> willRaiseException (ExpressionOther ''v'' plain_facts)"
    by (simp add: willRaiseException_def plain_facts_def)
  have 5: "\<not> willRaiseException (ExpressionOther ''d'' plain_facts)"
    by (simp add: willRaiseException_def plain_facts_def)
  have 6: "willRaiseException (ExpressionOther ''k'' raising_facts)"
    by (simp add: willRaiseException_def raising_facts_def)
  show ?thesis
    using assignment_subscript_raising_subscript [OF 1 4 2 5 3 6, where calls = "[]"]
    by simp
qed

text \<open>
  C2 as stated fails: for \<^verbatim>\<open>d[k] = v\<close> with a subscript that always raises the
  replacement is not the sequence of the bare evaluations of source and subscribed
  expression alone, it has the evaluation of the subscript as its third statement.
\<close>

theorem assignment_subscript_counterexample:
  "\<not> willRaiseException (as_source subscript_raising_key)
   \<and> \<not> willRaiseException (as_expression subscript_raising_key)
   \<and> willRaiseException (as_subscript subscript_raising_key)
   \<and> fst (computeStatement_AssignmentSubscript example_ops subscript_raising_key (all_assigned, [])) =
       Triple
         (Some (StatementsSequence
            [StatementExpressionOnly (as_source subscript_raising_key),
             StatementExpressionOnly (as_expression subscript_raising_key),
             StatementExpressionOnly (as_subscript subscript_raising_key)]))
         (Some ''new_raise'')
         (Some (CHR 0x0A #
            ''Subscript assignment raises exception in subscript value, removed assignment.''))
   \<and> StatementsSequence
         [StatementExpressionOnly (as_source subscript_raising_key),
          StatementExpressionOnly (as_expression subscript_raising_key),
          StatementExpressionOnly (as_subscript subscript_raising_key)] \<noteq>
       StatementsSequence
         [StatementExpressionOnly (as_source subscript_raising_key),
          StatementExpressionOnly (as_expression subscript_raising_key)]"
  by (simp add: computeStatement_AssignmentSubscript_def onExpression_def Let_def
      new_raise_def makeStatementOnlyNodesFromExpressions_def List.map_filter_simps
      example_ops_def subscript_raising_key_def willRaiseException_def plain_facts_def
      raising_facts_def)

text \<open>
  C4. For a slice assignment with both bounds present, where the analysed source and
  sliced expression do not always raise and the analysed lower bound does, the rule
  analyses source, sliced expression and lower bound, in that order, and nothing else:
  the upper bound is not analysed and stays the child it was. The replacement is the
  sequence of the bare evaluations of source, sliced expression and lower bound, tagged
  \<^verbatim>\<open>new_raise\<close>.
\<close>

theorem assignment_slice_raising_lower:
  assumes "cc_onExpression ops (sl_source self) c = (source, c1)"
    and "\<not> willRaiseException source"
    and "cc_onExpression ops (sl_expression self) c1 = (lookup_source, c2)"
    and "\<not> willRaiseException lookup_source"
    and "sl_lower self = Some lower0"
    and "cc_onExpression ops lower0 c2 = (lower, c3)"
    and "willRaiseException lower"
    and "sl_upper self = Some upper0"
  shows "computeStatement_AssignmentSlice ops self (c, calls) =
           (Triple
              (Some (StatementsSequence
                 [StatementExpressionOnly source, StatementExpressionOnly lookup_source,
                  StatementExpressionOnly lower]))
              (Some ''new_raise'')
              (Some ''Slice assignment raises exception in lower slice boundary value, removed assignment.''),
            \<lparr>sl_source = source, sl_expression = lookup_source, sl_lower = Some lower,
             sl_upper = Some upper0\<rparr>,
            (c3, calls @ [OnExpression (Some (sl_source self)),
                          OnExpression (Some (sl_expression self)),
                          OnExpression (Some lower0)]))"
  using assms
  by (simp add: computeStatement_AssignmentSlice_def onExpression_def Let_def
      new_raise_def makeStatementOnlyNodesFromExpressions_def List.map_filter_simps)

theorem assignment_slice_raising_lower_witness:
  "computeStatement_AssignmentSlice example_ops slice_raising_lower (all_assigned, []) =
     (Triple
        (Some (StatementsSequence
           [StatementExpressionOnly (ExpressionOther ''v'' plain_facts),
            StatementExpressionOnly (ExpressionOther ''d'' plain_facts),
            StatementExpressionOnly (ExpressionOther ''l'' raising_facts)]))
        (Some ''new_raise'')
        (Some ''Slice assignment raises exception in lower slice boundary value, removed assignment.''),
      slice_raising_lower,
      (all_assigned,
       [OnExpression (Some (ExpressionOther ''v'' plain_facts)),
        OnExpression (Some (ExpressionOther ''d'' plain_facts)),
        OnExpression (Some (ExpressionOther ''l'' raising_facts))]))"
proof -
  have 1: "cc_onExpression example_ops (sl_source slice_raising_lower) all_assigned
             = (ExpressionOther ''v'' plain_facts, all_assigned)"
    by (simp add: example_ops_def slice_raising_lower_def)
  have 2: "cc_onExpression example_ops (sl_expression slice_raising_lower) all_assigned
             = (ExpressionOther ''d'' plain_facts, all_assigned)"
    by (simp add: example_ops_def slice_raising_lower_def)
  have 3: "sl_lower slice_raising_lower = Some (ExpressionOther ''l'' raising_facts)"
    by (simp add: slice_raising_lower_def)
  have 4: "cc_onExpression example_ops (ExpressionOther ''l'' raising_facts) all_assigned
             = (ExpressionOther ''l'' raising_facts, all_assigned)"
    by (simp add: example_ops_def)
  have 5: "sl_upper slice_raising_lower = Some (ExpressionOther ''u'' plain_facts)"
    by (simp add: slice_raising_lower_def)
  have 6: "\<not> willRaiseException (ExpressionOther ''v'' plain_facts)"
    by (simp add: willRaiseException_def plain_facts_def)
  have 7: "\<not> willRaiseException (ExpressionOther ''d'' plain_facts)"
    by (simp add: willRaiseException_def plain_facts_def)
  have 8: "willRaiseException (ExpressionOther ''l'' raising_facts)"
    by (simp add: willRaiseException_def raising_facts_def)
  show ?thesis
    using assignment_slice_raising_lower [OF 1 6 2 7 3 4 8 5, where calls = "[]"]
    by (simp add: slice_raising_lower_def)
qed

text \<open>
  C5. The analysed source does not always raise and is a reference to the very variable
  the statement assigns, a variable that is no module variable. The class of variable
  references is not part of the analysed file; what the rule needs of it is a hypothesis:
  the expression analysis reports a reference free of side effects only when the variable
  is provably defined, that is when its current trace in the collection, after the
  analysis of the source, must have a value. Then the rule returns with tag
  \<^verbatim>\<open>new_statements\<close> in both cases: the statement is removed when the reference has no
  side effects and the variable is provably defined, and is replaced by the bare
  evaluation of the reference otherwise. The rule makes no call but the analysis of the
  source.
\<close>

theorem assignment_from_itself:
  assumes "cc_onExpression ops (av_source self) c = (source, c1)"
    and "\<not> willRaiseException source"
    and "\<not> isModuleVariable (ref_variable (av_variable_ref self))"
    and "isExpressionVariableRef source"
    and "getVariable source = Some (ref_variable (av_variable_ref self))"
    and "\<not> mayHaveSideEffects source \<longrightarrow>
           mustHaveValue
             (cc_getVariableCurrentTrace ops (ref_variable (av_variable_ref self)) c1)"
  shows "computeStatement_AssignmentVariable env ops self (c, calls) =
           (if \<not> mayHaveSideEffects source
               \<and> mustHaveValue
                    (cc_getVariableCurrentTrace ops (ref_variable (av_variable_ref self)) c1)
            then
              Triple None (Some ''new_statements'')
                (Some ''Removed assignment of variable from itself which is known to be defined.'')
            else
              Triple (Some (StatementExpressionOnly source)) (Some ''new_statements'')
                (Some ''Reduced assignment of variable from itself to access of it.''),
            self\<lparr>av_source := source\<rparr>,
            (c1, calls @ [OnExpression (Some (av_source self))]))"
proof (cases "mayHaveSideEffects source")
  case True
  with assms(1-5) show ?thesis
    by (simp add: computeStatement_AssignmentVariable_def onExpression_def Let_def
        new_statements_def makeStatementExpressionOnlyReplacementNode_def)
next
  case False
  with assms(6)
  have "mustHaveValue
          (cc_getVariableCurrentTrace ops (ref_variable (av_variable_ref self)) c1)"
    by simp
  with False assms(1-5) show ?thesis
    by (simp add: computeStatement_AssignmentVariable_def onExpression_def Let_def
        new_statements_def)
qed

theorem assignment_from_itself_witness:
  "\<not> mayHaveSideEffects (av_source (self_assignment False))
   \<and> mustHaveValue (cc_getVariableCurrentTrace example_ops local_x all_assigned)
   \<and> fst (computeStatement_AssignmentVariable no_registry example_ops (self_assignment False)
            (all_assigned, [])) =
     Triple None (Some ''new_statements'')
       (Some ''Removed assignment of variable from itself which is known to be defined.'')
   \<and> mayHaveSideEffects (av_source (self_assignment True))
   \<and> \<not> mustHaveValue (cc_getVariableCurrentTrace example_ops local_x all_uninit)
   \<and> fst (computeStatement_AssignmentVariable no_registry example_ops (self_assignment True)
            (all_uninit, [])) =
     Triple (Some (StatementExpressionOnly (av_source (self_assignment True))))
       (Some ''new_statements'')
       (Some ''Reduced assignment of variable from itself to access of it.'')"
proof -
  have 1: "cc_onExpression example_ops (av_source (self_assignment b)) c
             = (av_source (self_assignment b), c)" for b c
    by (simp add: example_ops_def)
  have 2: "\<not> willRaiseException (av_source (self_assignment b))" for b
    by (simp add: willRaiseException_def self_assignment_def plain_facts_def)
  have 3: "\<not> isModuleVariable (ref_variable (av_variable_ref (self_assignment b)))" for b
    by (simp add: isModuleVariable_def self_assignment_def target_def local_x_def)
  have 4: "isExpressionVariableRef (av_source (self_assignment b))" for b
    by (simp add: self_assignment_def)
  have 5: "getVariable (av_source (self_assignment b))
             = Some (ref_variable (av_variable_ref (self_assignment b)))" for b
    by (simp add: self_assignment_def target_def)
  have v: "ref_variable (av_variable_ref (self_assignment b)) = local_x" for b
    by (simp add: self_assignment_def target_def)
  have 6: "\<not> mayHaveSideEffects (av_source (self_assignment False))"
    by (simp add: mayHaveSideEffects_def self_assignment_def plain_facts_def)
  have 7: "mayHaveSideEffects (av_source (self_assignment True))"
    by (simp add: mayHaveSideEffects_def self_assignment_def plain_facts_def)
  have 8: "mustHaveValue (cc_getVariableCurrentTrace example_ops local_x all_assigned)"
    by (simp add: example_ops_def all_assigned_def assigned_trace_def)
  have 9: "\<not> mustHaveValue (cc_getVariableCurrentTrace example_ops local_x all_uninit)"
    by (simp add: example_ops_def all_uninit_def uninit_trace_def)
  have defined: "\<not> mayHaveSideEffects (av_source (self_assignment False)) \<longrightarrow>
      mustHaveValue (cc_getVariableCurrentTrace example_ops
        (ref_variable (av_variable_ref (self_assignment False))) all_assigned)"
    using 8 by (simp add: v)
  have undefined: "\<not> mayHaveSideEffects (av_source (self_assignment True)) \<longrightarrow>
      mustHaveValue (cc_getVariableCurrentTrace example_ops
        (ref_variable (av_variable_ref (self_assignment True))) all_uninit)"
    using 7 by simp
  show ?thesis
    using assignment_from_itself [OF 1 2 3 4 5 defined, where calls = "[]"
        and env = no_registry]
      assignment_from_itself [OF 1 2 3 4 5 undefined, where calls = "[]"
        and env = no_registry] 6 7 8 9
    by (simp add: v)
qed

text \<open>
  C3, as the code has it. Under experimental mode, for a local or temporary target and
  an analysed source that is an immutable compile-time constant (neither always raising,
  nor a variable reference, nor a side-effects wrapper), the assignment is dropped exactly
  when the registry has a matching assign trace of the last pass, the variable is a
  temporary or its provider is neither unoptimized nor a class dictionary creation, that
  trace has no potential and no name usages, and the variable is not logically shared.
  The number of definite usages does not matter for the drop; it decides only whether the
  constant is forwarded: when the assignment is dropped, the trace of the node has the
  constant as its replacement exactly when the matching trace has a definite usage.
\<close>

theorem constant_assignment_dropped_iff:
  assumes "cc_onExpression ops (av_source self) c = (source, c1)"
    and "\<not> willRaiseException source"
    and "\<not> isExpressionVariableRef source"
    and "\<not> isExpressionSideEffects source"
    and "isCompileTimeConstant source"
    and "\<not> isMutable source"
    and "isExperimental env"
    and "isLocalVariable (ref_variable (av_variable_ref self))
         \<or> isTempVariable (ref_variable (av_variable_ref self))"
    and "cc_onVariableSet ops (self\<lparr>av_source := source\<rparr>) c1 = (variable_trace, c2)"
  shows "(dropsAssignment (fst (computeStatement_AssignmentVariable env ops self (c, calls))) =
            (\<exists>global_trace last_trace.
               getGlobalVariableTrace env (ref_variable (av_variable_ref self)) = Some global_trace
               \<and> global_trace (self\<lparr>av_source := source, av_variable_trace := Some variable_trace\<rparr>)
                   = Some last_trace
               \<and> (isTempVariable (ref_variable (av_variable_ref self))
                  \<or> (\<not> isUnoptimized (av_provider self) \<and> \<not> isClassDictCreation (av_provider self)))
               \<and> \<not> hasPotentialUsages last_trace \<and> \<not> hasNameUsages last_trace
               \<and> \<not> isSharedLogically (ref_variable (av_variable_ref self))))
         \<and> (\<forall>global_trace last_trace.
               dropsAssignment (fst (computeStatement_AssignmentVariable env ops self (c, calls)))
               \<and> getGlobalVariableTrace env (ref_variable (av_variable_ref self)) = Some global_trace
               \<and> global_trace (self\<lparr>av_source := source, av_variable_trace := Some variable_trace\<rparr>)
                   = Some last_trace
               \<longrightarrow> av_variable_trace
                     (fst (snd (computeStatement_AssignmentVariable env ops self (c, calls)))) =
                   Some (if hasDefiniteUsages last_trace
                         then setReplacementNode variable_trace source else variable_trace))"
  using assms
  by (auto simp: computeStatement_AssignmentVariable_def onExpression_def onVariableSet_def
      propagateAssignment_def keepAssignment_def dropAssignment_def registerReplacement_def
      Let_def split: option.splits)

theorem constant_assignment_dropped_iff_witness:
  "dropsAssignment
     (fst (computeStatement_AssignmentVariable (registry_with (used_times 1)) example_ops
             (constant_assignment local_x) (all_uninit, [])))
   \<and> \<not> dropsAssignment
     (fst (computeStatement_AssignmentVariable (registry_with (used_times 1)) example_ops
             (constant_assignment shared_x) (all_uninit, [])))"
proof -
  let ?source = "ExpressionOther ''1'' constant_facts"
  let ?trace = "\<lparr>at_definite_usages = 0, at_potential_usages = False, at_name_usages = False,
                  at_previous = uninit_trace, at_replacement = None\<rparr>"
  let ?after = "\<lparr>ex_traces = (\<lambda>n. uninit_trace)(''x'' := assigned_trace), ex_escaped = False\<rparr>"
  have 1: "cc_onExpression example_ops (av_source (constant_assignment v)) all_uninit
             = (?source, all_uninit)" for v
    by (simp add: example_ops_def constant_assignment_def)
  have 2: "\<not> willRaiseException ?source"
    by (simp add: willRaiseException_def constant_facts_def)
  have 3: "\<not> isExpressionVariableRef ?source" by simp
  have 4: "\<not> isExpressionSideEffects ?source" by simp
  have 5: "isCompileTimeConstant ?source"
    by (simp add: isCompileTimeConstant_def constant_facts_def)
  have 6: "\<not> isMutable ?source"
    by (simp add: isMutable_def constant_facts_def)
  have 7: "isExperimental (registry_with t)" for t
    by (simp add: registry_with_def)
  have 8: "isLocalVariable (ref_variable (av_variable_ref (constant_assignment local_x)))
           \<or> isTempVariable (ref_variable (av_variable_ref (constant_assignment local_x)))"
    by (simp add: isLocalVariable_def constant_assignment_def target_def local_x_def)
  have 9: "isLocalVariable (ref_variable (av_variable_ref (constant_assignment shared_x)))
           \<or> isTempVariable (ref_variable (av_variable_ref (constant_assignment shared_x)))"
    by (simp add: isLocalVariable_def constant_assignment_def target_def shared_x_def)
  have 10: "cc_onVariableSet example_ops (constant_assignment local_x\<lparr>av_source := ?source\<rparr>)
              all_uninit = (?trace, ?after)"
    by (simp add: example_ops_def constant_assignment_def target_def local_x_def all_uninit_def)
  have 11: "cc_onVariableSet example_ops (constant_assignment shared_x\<lparr>av_source := ?source\<rparr>)
              all_uninit = (?trace, ?after)"
    by (simp add: example_ops_def constant_assignment_def target_def shared_x_def all_uninit_def)
  show ?thesis
    using constant_assignment_dropped_iff [OF 1 2 3 4 5 6 7 8 10, where calls = "[]"
        and t1 = "used_times 1"]
      constant_assignment_dropped_iff [OF 1 2 3 4 5 6 7 9 11, where calls = "[]"
        and t1 = "used_times 1"]
    by (simp add: registry_with_def used_times_def constant_assignment_def target_def
        local_x_def shared_x_def function_provider_def isSharedLogically_def
        hasPotentialUsages_def hasNameUsages_def)
qed

text \<open>
  C3 as stated fails: with two definite usages in the matching trace (and no potential
  and no name usages) the assignment of a constant to a local variable that is not
  logically shared is dropped all the same.
\<close>

theorem constant_assignment_counterexample:
  "isExperimental (registry_with (used_times 2))
   \<and> isLocalVariable local_x \<and> \<not> isSharedLogically local_x
   \<and> isCompileTimeConstant (av_source (constant_assignment local_x))
   \<and> \<not> isMutable (av_source (constant_assignment local_x))
   \<and> \<not> getDefiniteUsages (used_times 2) \<le> 1
   \<and> \<not> hasPotentialUsages (used_times 2) \<and> \<not> hasNameUsages (used_times 2)
   \<and> fst (computeStatement_AssignmentVariable (registry_with (used_times 2)) example_ops
            (constant_assignment local_x) (all_uninit, [])) =
       Triple None (Some ''new_statements'')
         (Some (''Dropped propagated assignment statement to '' @ quoted ''x'' @ ''.''))"
  by (simp add: computeStatement_AssignmentVariable_def onExpression_def onVariableSet_def
      propagateAssignment_def keepAssignment_def dropAssignment_def registerReplacement_def
      Let_def registry_with_def used_times_def constant_assignment_def target_def
      local_x_def function_provider_def isSharedLogically_def isLocalVariable_def
      isModuleVariable_def isTempVariable_def
      hasPotentialUsages_def hasNameUsages_def hasDefiniteUsages_def getDefiniteUsages_def
      getPrevious_def uninit_trace_def isCompileTimeConstant_def isMutable_def
      willRaiseException_def constant_facts_def example_ops_def all_uninit_def
      new_statements_def)

text \<open>
  In the constant branch the replacement is registered before the test for a logically
  shared variable: for such a variable the assignment stays, and its trace has the
  constant as replacement node.
\<close>

lemma shared_constant_replacement_registered:
  "isSharedLogically shared_x
   \<and> computeStatement_AssignmentVariable (registry_with (used_times 1)) example_ops
       (constant_assignment shared_x) (all_uninit, []) =
     (Triple
        (Some (StatementAssignmentVariable
           (constant_assignment shared_x
              \<lparr>av_variable_trace :=
                 Some (setReplacementNode
                         \<lparr>at_definite_usages = 0, at_potential_usages = False,
                          at_name_usages = False, at_previous = uninit_trace,
                          at_replacement = None\<rparr>
                         (ExpressionOther ''1'' constant_facts))\<rparr>)))
        None None,
      constant_assignment shared_x
        \<lparr>av_variable_trace :=
           Some (setReplacementNode
                   \<lparr>at_definite_usages = 0, at_potential_usages = False,
                    at_name_usages = False, at_previous = uninit_trace,
                    at_replacement = None\<rparr>
                   (ExpressionOther ''1'' constant_facts))\<rparr>,
      (\<lparr>ex_traces = (\<lambda>n. uninit_trace)(''x'' := assigned_trace), ex_escaped = False\<rparr>,
       [OnExpression (Some (ExpressionOther ''1'' constant_facts)),
        OnVariableSet (constant_assignment shared_x),
        SetReplacementNode (ExpressionOther ''1'' constant_facts)]))"
  by (simp add: computeStatement_AssignmentVariable_def onExpression_def onVariableSet_def
      propagateAssignment_def keepAssignment_def dropAssignment_def registerReplacement_def
      Let_def registry_with_def used_times_def constant_assignment_def target_def
      shared_x_def function_provider_def isSharedLogically_def isLocalVariable_def
      isModuleVariable_def isTempVariable_def
      hasPotentialUsages_def hasNameUsages_def hasDefiniteUsages_def getDefiniteUsages_def
      getPrevious_def uninit_trace_def isCompileTimeConstant_def isMutable_def
      willRaiseException_def constant_facts_def example_ops_def all_uninit_def
      new_statements_def)

text \<open>
  The return contract holds for the rules of the assignments, of the delete of a
  variable, of a subscript and of a slice, and of the release, on every input.
\<close>

lemma propagateAssignment_contract:
  "honoursReturnContract (fst (propagateAssignment env self variable_trace s))"
  by (auto simp: propagateAssignment_def keepAssignment_def dropAssignment_def
      registerReplacement_def new_statements_def Let_def split: option.splits)

lemma computeStatement_AssignmentVariable_contract:
  "honoursReturnContract (fst (computeStatement_AssignmentVariable env ops self s))"
  by (auto simp: computeStatement_AssignmentVariable_def propagateAssignment_contract
      new_statements_def new_raise_def Let_def split: prod.splits)

lemma computeStatement_AssignmentAttribute_contract:
  "honoursReturnContract (fst (computeStatement_AssignmentAttribute ops self s))"
  by (auto simp: computeStatement_AssignmentAttribute_def new_raise_def Let_def
      split: prod.splits)

lemma computeStatement_AssignmentSubscript_contract:
  "honoursReturnContract (fst (computeStatement_AssignmentSubscript ops self s))"
  by (auto simp: computeStatement_AssignmentSubscript_def new_raise_def Let_def
      split: prod.splits)

lemma computeStatement_AssignmentSlice_contract:
  "honoursReturnContract (fst (computeStatement_AssignmentSlice ops self s))"
  by (auto simp: computeStatement_AssignmentSlice_def new_raise_def Let_def
      split: prod.splits)

lemma computeStatement_DelVariable_contract:
  "honoursReturnContract (fst (computeStatement_DelVariable ops self s))"
  by (auto simp: computeStatement_DelVariable_def new_statements_def Let_def
      split: prod.splits)

lemma computeStatement_ReleaseVariable_contract:
  "honoursReturnContract (fst (computeStatement_ReleaseVariable ops self s))"
  by (auto simp: computeStatement_ReleaseVariable_def new_statements_def Let_def
      split: prod.splits)

lemma computeStatement_DelSubscript_contract:
  "honoursReturnContract (fst (computeStatement_DelSubscript ops self s))"
  by (auto simp: computeStatement_DelSubscript_def new_raise_def Let_def
      split: prod.splits)

lemma computeStatement_DelSlice_contract:
  "honoursReturnContract (fst (computeStatement_DelSlice ops self s))"
  by (auto simp: computeStatement_DelSlice_def new_raise_def Let_def
      split: prod.splits)

text \<open>
  The rule of the delete of an attribute honours the contract exactly when the analysed
  looked-up expression does not always raise: on the raising path it returns the bare
  evaluation alone, with no change tag and no description.
\<close>

lemma computeStatement_DelAttribute_contract_iff:
  "honoursReturnContract (fst (computeStatement_DelAttribute ops self s))
     = (\<not> willRaiseException (fst (onExpression ops (da_expression self) s)))"
  by (auto simp: computeStatement_DelAttribute_def Let_def split: prod.splits)

text \<open>
  C1 fails on the code for \<^verbatim>\<open>StatementDelAttribute\<close>: for \<^verbatim>\<open>del o.a\<close> where \<^verbatim>\<open>o\<close>
  always raises, the rule returns the bare evaluation of \<^verbatim>\<open>o\<close> as a single node, not a
  triple with tag \<^verbatim>\<open>new_raise\<close> and a description as the sibling rules do.
\<close>

theorem del_attribute_raising_returns_no_triple:
  "willRaiseException (da_expression del_attribute_raising)
   \<and> fst (computeStatement_DelAttribute example_ops del_attribute_raising (all_assigned, []))
       = Node (StatementExpressionOnly (ExpressionOther ''o'' raising_facts))
   \<and> \<not> honoursReturnContract
         (fst (computeStatement_DelAttribute example_ops del_attribute_raising (all_assigned, [])))"
  by (simp add: computeStatement_DelAttribute_def onExpression_def Let_def
      del_attribute_raising_def example_ops_def willRaiseException_def raising_facts_def
      makeStatementExpressionOnlyReplacementNode_def)

end
